theory Spec2Isabelle
  imports Complex_Main "HOL-Library.AList"
begin

section \<open>Photonic circuit structures (src/src/structures.py)\<close>

text \<open>
  The Python code computes with IEEE double-precision numbers (numpy). Here a finite
  float is a \<^typ>\<open>real\<close> and a finite complex float is a \<^typ>\<open>complex\<close>:
  rounding and overflow are not modelled. The one place where the code leaves the
  finite numbers on ordinary inputs, \<open>np.sqrt\<close> of a negative float, is modelled: it
  yields not-a-number (with a warning, no exception).
\<close>

subsection \<open>Pins, errors, coefficients, equations\<close>

text \<open>A Pin is used only as a key; it is represented by its integer identity.\<close>

type_synonym pin = nat

datatype error = IndexError | ZeroDivisionError | StructuralValidationError | LinAlgError

text \<open>
  A coefficient of a field equation is a Python scalar, a numpy array with one entry
  per swept angular frequency, or the complex not-a-number.
\<close>

datatype coeff = Scalar complex | Array "complex list" | NaN

text \<open>
  A field equation is a Python dict from Pin to coefficient. A dict keeps its keys in
  insertion order, and a later value for a key that is already present replaces the
  earlier value in place: this is \<^const>\<open>AList.update\<close> on an association list.
\<close>

type_synonym equation = "(pin \<times> coeff) list"

definition dict_literal :: "('k \<times> 'v) list \<Rightarrow> ('k \<times> 'v) list" where
  "dict_literal kvs = foldl (\<lambda>d (k, v). AList.update k v d) [] kvs"

text \<open>\<open>xs[i]\<close> for a non-negative constant index: IndexError out of range.\<close>

definition getitem :: "'a list \<Rightarrow> nat \<Rightarrow> error + 'a" where
  "getitem xs i = (if i < length xs then Inr (xs ! i) else Inl IndexError)"

text \<open>\<open>scipy.constants.c\<close>, the speed of light in vacuum (m/s).\<close>

definition c :: real where
  "c = 299792458"

subsection \<open>Waveguide\<close>

text \<open>
  \<open>BaseStructure.__init__\<close> (base.py) is not among the sources: the list it leaves in
  \<open>self.pins\<close> is the parameter \<open>pins\<close> of every constructor below.
\<close>

record Waveguide =
  wg_pins :: "pin list"
  wg_length :: real
  effective_refractive_index :: real
  group_refractive_index :: real
  GVD :: real
  loss_dB :: real
  central_wavelength :: real
  angular_frequencies :: "real list"
  central_frequency :: real

text \<open>
  \<open>2 * np.pi / central_wavelength * c\<close> divides two Python floats: a zero
  \<open>central_wavelength\<close> raises ZeroDivisionError.
\<close>

definition Waveguide_init ::
  "real \<Rightarrow> real \<Rightarrow> real \<Rightarrow> real \<Rightarrow> real \<Rightarrow> real \<Rightarrow> real list \<Rightarrow> pin list \<Rightarrow> error + Waveguide" where
  "Waveguide_init len n_eff n_g gvd loss lam0 omegas pins =
     (if lam0 = 0 then Inl ZeroDivisionError
      else Inr \<lparr>wg_pins = pins, wg_length = len, effective_refractive_index = n_eff,
                group_refractive_index = n_g, GVD = gvd, loss_dB = loss,
                central_wavelength = lam0, angular_frequencies = omegas,
                central_frequency = 2 * pi / lam0 * c\<rparr>)"

text \<open>The wavevector, one entry per swept angular frequency (numpy broadcasting).\<close>

definition wavevector :: "Waveguide \<Rightarrow> real list" where
  "wavevector w =
     (let zero_order_term = effective_refractive_index w * central_frequency w / c;
          first_order_term =
            map (\<lambda>om. group_refractive_index w * (om - central_frequency w) / c)
              (angular_frequencies w);
          second_order_term =
            map (\<lambda>om. 1 / 2 * GVD w * (om - central_frequency w) ^ 2)
              (angular_frequencies w)
      in map2 (+) (map (\<lambda>t. zero_order_term + t) first_order_term) second_order_term)"

definition Waveguide_field_equations :: "Waveguide \<Rightarrow> error + equation list" where
  "Waveguide_field_equations w =
     (let loss_amplitude_coefficient = exp (- loss_dB w * ln 10 / 20 * wg_length w) in
      case getitem (wg_pins w) 0 of
        Inl e \<Rightarrow> Inl e
      | Inr p0 \<Rightarrow>
          (case getitem (wg_pins w) 1 of
             Inl e \<Rightarrow> Inl e
           | Inr p1 \<Rightarrow>
               Inr [dict_literal
                 [(p0, Array (map (\<lambda>k. - of_real loss_amplitude_coefficient
                                      * exp (\<i> * of_real k * of_real (wg_length w)))
                                (wavevector w))),
                  (p1, Scalar 1)]]))"

subsection \<open>Source\<close>

record Source =
  src_pins :: "pin list"
  amplitude :: complex
  phase :: real

definition Source_init :: "complex \<Rightarrow> real \<Rightarrow> pin list \<Rightarrow> error + Source" where
  "Source_init ampl ph pins = Inr \<lparr>src_pins = pins, amplitude = ampl, phase = ph\<rparr>"

definition Source_field_equations :: "Source \<Rightarrow> error + equation list" where
  "Source_field_equations s =
     (case getitem (src_pins s) 0 of
        Inl e \<Rightarrow> Inl e
      | Inr p0 \<Rightarrow> Inr [dict_literal [(p0, Scalar 1)]])"

definition Source_ordinate_vector :: "Source \<Rightarrow> complex list" where
  "Source_ordinate_vector s = [amplitude s]"

subsection \<open>DirectionalCoupler\<close>

text \<open>\<open>np.sqrt\<close> on a float: not-a-number (\<open>None\<close>) below zero.\<close>

definition np_sqrt :: "real \<Rightarrow> real option" where
  "np_sqrt x = (if x < 0 then None else Some (sqrt x))"

text \<open>\<open>np.conj\<close> and unary minus on a coefficient.\<close>

fun np_conj :: "coeff \<Rightarrow> coeff" where
  "np_conj (Scalar z) = Scalar (cnj z)"
| "np_conj (Array zs) = Array (map cnj zs)"
| "np_conj NaN = NaN"

fun neg :: "coeff \<Rightarrow> coeff" where
  "neg (Scalar z) = Scalar (- z)"
| "neg (Array zs) = Array (map uminus zs)"
| "neg NaN = NaN"

record DirectionalCoupler =
  dc_pins :: "pin list"
  kappa :: coeff
  sigma :: coeff

text \<open>The constructor has no check of its arguments and no statement that raises.\<close>

definition DirectionalCoupler_init ::
  "real \<Rightarrow> real \<Rightarrow> real \<Rightarrow> pin list \<Rightarrow> error + DirectionalCoupler" where
  "DirectionalCoupler_init cross_coupling_coefficient self_coupling_phase
       cross_coupling_phase pins =
     Inr \<lparr>dc_pins = pins,
          kappa = Scalar (of_real cross_coupling_coefficient
                          * exp (\<i> * of_real cross_coupling_phase)),
          sigma = (case np_sqrt (1 - cross_coupling_coefficient ^ 2) of
                     None \<Rightarrow> NaN
                   | Some r \<Rightarrow> Scalar (of_real r * exp (\<i> * of_real self_coupling_phase)))\<rparr>"

definition bind_err :: "error + 'a \<Rightarrow> ('a \<Rightarrow> error + 'b) \<Rightarrow> error + 'b" where
  "bind_err m f = (case m of Inl e \<Rightarrow> Inl e | Inr x \<Rightarrow> f x)"

definition DirectionalCoupler_field_equations ::
  "DirectionalCoupler \<Rightarrow> error + equation list" where
  "DirectionalCoupler_field_equations d =
     bind_err (getitem (dc_pins d) 0) (\<lambda>p0.
     bind_err (getitem (dc_pins d) 1) (\<lambda>p1.
     bind_err (getitem (dc_pins d) 2) (\<lambda>p2.
     bind_err (getitem (dc_pins d) 3) (\<lambda>p3.
       Inr [dict_literal [(p0, sigma d), (p1, kappa d), (p2, Scalar (- 1))],
            dict_literal [(p0, neg (np_conj (kappa d))), (p1, np_conj (sigma d)),
                          (p3, Scalar (- 1))]]))))"

subsection \<open>Structures and composites\<close>

text \<open>
  A structure is a leaf or a composite: a composite has its own pins and a list of
  child structures.
\<close>

datatype "structure" =
    WG Waveguide
  | SRC Source
  | DC DirectionalCoupler
  | Composite "pin list" "structure list"

text \<open>
  \<open>CompositeStructure.__init__\<close> (base.py) is not among the sources; by the spec
  (section 3, Composite structure) it keeps its arguments as the attributes of the
  same names, which the constructors below read back as \<open>self.<name>\<close>.
\<close>

record RingResonator =
  rr_pins :: "pin list"
  rr_effective_refractive_index :: real
  rr_group_refractive_index :: real
  rr_GVD :: real
  rr_loss_dB :: real
  rr_central_wavelength :: real
  rr_angular_frequencies :: "real list"
  rr_radius :: real
  rr_cross_coupling_coefficient :: real
  rr_structures :: "structure list"

definition RingResonator_num_pins :: nat where
  "RingResonator_num_pins = 4"

definition RingResonator_num_equations :: nat where
  "RingResonator_num_equations = 3"

text \<open>
  The coupler takes the defaults \<open>self_coupling_phase = 0\<close> and
  \<open>cross_coupling_phase = np.pi / 2\<close>. The list literal builds the coupler first, then
  reads \<open>self.pins[3]\<close> and \<open>self.pins[1]\<close>, then builds the waveguide.
\<close>

definition RingResonator_init ::
  "real \<Rightarrow> real \<Rightarrow> real \<Rightarrow> real \<Rightarrow> real \<Rightarrow> real \<Rightarrow> real \<Rightarrow> real list \<Rightarrow> pin list
     \<Rightarrow> error + RingResonator" where
  "RingResonator_init radius cross_coupling_coefficient n_eff n_g gvd loss lam0 omegas pins =
     bind_err (DirectionalCoupler_init cross_coupling_coefficient 0 (pi / 2) pins) (\<lambda>d.
     bind_err (getitem pins 3) (\<lambda>p3.
     bind_err (getitem pins 1) (\<lambda>p1.
     bind_err (Waveguide_init (2 * pi * radius) n_eff n_g gvd loss lam0 omegas [p3, p1]) (\<lambda>w.
       Inr \<lparr>rr_pins = pins, rr_effective_refractive_index = n_eff,
            rr_group_refractive_index = n_g, rr_GVD = gvd, rr_loss_dB = loss,
            rr_central_wavelength = lam0, rr_angular_frequencies = omegas,
            rr_radius = radius, rr_cross_coupling_coefficient = cross_coupling_coefficient,
            rr_structures = [DC d, WG w]\<rparr>))))"

record AddDropFilter =
  adf_pins :: "pin list"
  adf_effective_refractive_index :: real
  adf_group_refractive_index :: real
  adf_GVD :: real
  adf_loss_dB :: real
  adf_central_wavelength :: real
  adf_angular_frequencies :: "real list"
  adf_radius :: real
  input_cross_coupling_coefficient :: real
  auxiliary_cross_coupling_coefficient :: real
  adf_structures :: "structure list"

definition AddDropFilter_init ::
  "real \<Rightarrow> real \<Rightarrow> real \<Rightarrow> real \<Rightarrow> real \<Rightarrow> real \<Rightarrow> real \<Rightarrow> real \<Rightarrow> real list \<Rightarrow> pin list
     \<Rightarrow> error + AddDropFilter" where
  "AddDropFilter_init radius input_kappa auxiliary_kappa n_eff n_g gvd loss lam0 omegas pins =
     bind_err (DirectionalCoupler_init input_kappa 0 (pi / 2) (take 4 pins)) (\<lambda>d1.
     bind_err (DirectionalCoupler_init auxiliary_kappa 0 (pi / 2) (drop 4 pins)) (\<lambda>d2.
     bind_err (getitem pins 3) (\<lambda>p3.
     bind_err (getitem pins 5) (\<lambda>p5.
     bind_err (Waveguide_init (radius * pi) n_eff n_g gvd loss lam0 omegas [p3, p5]) (\<lambda>w1.
     bind_err (getitem pins 7) (\<lambda>p7.
     bind_err (getitem pins 1) (\<lambda>p1.
     bind_err (Waveguide_init (radius * pi) n_eff n_g gvd loss lam0 omegas [p7, p1]) (\<lambda>w2.
       Inr \<lparr>adf_pins = pins, adf_effective_refractive_index = n_eff,
            adf_group_refractive_index = n_g, adf_GVD = gvd, adf_loss_dB = loss,
            adf_central_wavelength = lam0, adf_angular_frequencies = omegas,
            adf_radius = radius, input_cross_coupling_coefficient = input_kappa,
            auxiliary_cross_coupling_coefficient = auxiliary_kappa,
            adf_structures = [DC d1, DC d2, WG w1, WG w2]\<rparr>))))))))"

text \<open>
  The solved field array, frequency sample by pin: \<open>ncols\<close> is its second dimension
  and every row has that length.
\<close>

record ndarray2 =
  ncols :: nat
  rows :: "complex list list"

definition wf_ndarray2 :: "ndarray2 \<Rightarrow> bool" where
  "wf_ndarray2 A = list_all (\<lambda>r. length r = ncols A) (rows A)"

text \<open>\<open>A[:, j]\<close> for a non-negative constant \<open>j\<close>.\<close>

definition column :: "ndarray2 \<Rightarrow> nat \<Rightarrow> error + complex list" where
  "column A j = (if j < ncols A then Inr (map (\<lambda>r. r ! j) (rows A)) else Inl IndexError)"

text \<open>
  \<open>AddDropFilter.field_enhancement\<close> and \<open>AddDropFilter.transmission\<close>. The property
  \<open>self.fields\<close> (base.py) is not among the sources: its outcome is the parameter.
\<close>

definition AddDropFilter_field_enhancement :: "error + ndarray2 \<Rightarrow> error + real list" where
  "AddDropFilter_field_enhancement flds =
     bind_err flds (\<lambda>A. bind_err (column A 3) (\<lambda>col. Inr (map cmod col)))"

definition AddDropFilter_transmission :: "error + ndarray2 \<Rightarrow> error + real list" where
  "AddDropFilter_transmission flds =
     bind_err flds (\<lambda>A. bind_err (column A 6) (\<lambda>col. Inr (map (\<lambda>z. (cmod z) ^ 2) col)))"

subsection \<open>Flattened equations and the solved fields\<close>

text \<open>
  Modelled from the spec: \<open>CompositeStructure.field_equations\<close> (base.py is not among the
  sources). Section 4.3: a composite's \<open>field_equations\<close> is the flattened concatenation
  of every child's \<open>field_equations\<close>, computed on demand.
\<close>

fun field_equations :: "structure \<Rightarrow> error + equation list"
  and field_equations_list :: "structure list \<Rightarrow> error + equation list" where
  "field_equations (WG w) = Waveguide_field_equations w"
| "field_equations (SRC s) = Source_field_equations s"
| "field_equations (DC d) = DirectionalCoupler_field_equations d"
| "field_equations (Composite ps ss) = field_equations_list ss"
| "field_equations_list [] = Inr []"
| "field_equations_list (s # ss) =
     bind_err (field_equations s) (\<lambda>es.
     bind_err (field_equations_list ss) (\<lambda>es'. Inr (es @ es')))"

text \<open>
  Modelled from the spec: the pins appearing anywhere in a structure (section 3, Field
  equation: the distinct pins of the fully expanded top-level structure).
\<close>

fun all_pins :: "structure \<Rightarrow> pin list"
  and all_pins_list :: "structure list \<Rightarrow> pin list" where
  "all_pins (WG w) = wg_pins w"
| "all_pins (SRC s) = src_pins s"
| "all_pins (DC d) = dc_pins d"
| "all_pins (Composite ps ss) = ps @ all_pins_list ss"
| "all_pins_list [] = []"
| "all_pins_list (s # ss) = all_pins s @ all_pins_list ss"

definition num_distinct_pins :: "structure \<Rightarrow> nat" where
  "num_distinct_pins s = length (remdups (all_pins s))"

text \<open>
  Modelled from the spec: the \<open>fields\<close> property (base.py is not among the sources).
  Sections 4.4 and 7: an equation count different from the distinct-pin count is a
  structural-validation error, detected before a solve is attempted; otherwise the
  matrix assembly and batched solve run. The assembly and solve (numpy's linear
  algebra) are the parameter \<open>solve\<close>.
\<close>

definition fields :: "(structure \<Rightarrow> error + ndarray2) \<Rightarrow> structure \<Rightarrow> error + ndarray2" where
  "fields solve s =
     bind_err (field_equations s) (\<lambda>es.
       if length es \<noteq> num_distinct_pins s then Inl StructuralValidationError
       else solve s)"

text \<open>
  RingResonator and AddDropFilter are CompositeStructures: seen as a structure, each is
  the composite of its own pins and its \<open>structures\<close> list.
\<close>

definition RingResonator_structure :: "RingResonator \<Rightarrow> structure" where
  "RingResonator_structure rr = Composite (rr_pins rr) (rr_structures rr)"

definition AddDropFilter_structure :: "AddDropFilter \<Rightarrow> structure" where
  "AddDropFilter_structure a = Composite (adf_pins a) (adf_structures a)"

section \<open>Properties\<close>

subsection \<open>Auxiliary facts\<close>

lemma map2_of_maps: "map2 f (map g xs) (map h xs) = map (\<lambda>x. f (g x) (h x)) xs"
  by (induction xs) simp_all

lemma wavevector_init:
  assumes "Waveguide_init len n_eff n_g gvd loss lam0 omegas pins = Inr w"
  shows "wavevector w =
    map (\<lambda>om. n_eff * (2 * pi * c / lam0) / c + n_g * (om - 2 * pi * c / lam0) / c
              + gvd / 2 * (om - 2 * pi * c / lam0) ^ 2) omegas"
proof -
  from assms have w: "w = \<lparr>wg_pins = pins, wg_length = len, effective_refractive_index = n_eff,
                group_refractive_index = n_g, GVD = gvd, loss_dB = loss,
                central_wavelength = lam0, angular_frequencies = omegas,
                central_frequency = 2 * pi / lam0 * c\<rparr>"
    by (simp add: Waveguide_init_def split: if_splits)
  show ?thesis
    by (simp add: w wavevector_def Let_def map2_of_maps)
qed

lemma loss_amplitude_powr:
  "exp (- loss * ln 10 / 20 * len) = 10 powr (- loss * len / (20::real))"
  by (simp add: powr_def mult.commute)

lemma Waveguide_field_equations_init:
  assumes "Waveguide_init len n_eff n_g gvd loss lam0 omegas [pin_in, pin_out] = Inr w"
  shows "Waveguide_field_equations w =
    Inr [dict_literal
      [(pin_in, Array (map (\<lambda>om. - of_real (10 powr (- loss * len / 20))
                             * exp (\<i> * of_real (n_eff * (2 * pi * c / lam0) / c
                                                  + n_g * (om - 2 * pi * c / lam0) / c
                                                  + gvd / 2 * (om - 2 * pi * c / lam0) ^ 2)
                                      * of_real len)) omegas)),
       (pin_out, Scalar 1)]]"
proof -
  from assms have f: "wg_pins w = [pin_in, pin_out]" "wg_length w = len" "loss_dB w = loss"
    by (auto simp: Waveguide_init_def split: if_splits)
  show ?thesis
    unfolding Waveguide_field_equations_def Let_def f wavevector_init [OF assms]
      loss_amplitude_powr
    by (simp add: getitem_def o_def)
qed

lemma cmod_transfer:
  "cmod (- (- complex_of_real (10 powr t) * exp (\<i> * of_real k * of_real len))) = 10 powr t"
  by (simp add: norm_mult)

lemma sqrt_16_25: "sqrt (16 / 25) = 4 / 5"
  by (rule real_sqrt_unique) (simp_all add: power2_eq_square)

lemma RingResonator_init_Inr:
  assumes "RingResonator_init radius k n_eff n_g gvd loss lam0 omegas pins = Inr rr"
  shows "3 < length pins \<and> lam0 \<noteq> 0
    \<and> rr = \<lparr>rr_pins = pins, rr_effective_refractive_index = n_eff,
            rr_group_refractive_index = n_g, rr_GVD = gvd, rr_loss_dB = loss,
            rr_central_wavelength = lam0, rr_angular_frequencies = omegas,
            rr_radius = radius, rr_cross_coupling_coefficient = k,
            rr_structures =
              [DC \<lparr>dc_pins = pins,
                    kappa = Scalar (of_real k * exp (\<i> * of_real (pi / 2))),
                    sigma = (case np_sqrt (1 - k ^ 2) of
                               None \<Rightarrow> NaN
                             | Some r \<Rightarrow> Scalar (of_real r * exp (\<i> * of_real 0)))\<rparr>,
               WG \<lparr>wg_pins = [pins ! 3, pins ! 1], wg_length = 2 * pi * radius,
                    effective_refractive_index = n_eff, group_refractive_index = n_g,
                    GVD = gvd, loss_dB = loss, central_wavelength = lam0,
                    angular_frequencies = omegas,
                    central_frequency = 2 * pi / lam0 * c\<rparr>]\<rparr>"
  using assms
  by (auto simp: RingResonator_init_def DirectionalCoupler_init_def Waveguide_init_def
        bind_err_def getitem_def split: if_splits)

lemma AddDropFilter_init_Inr:
  assumes "AddDropFilter_init radius k1 k2 n_eff n_g gvd loss lam0 omegas pins = Inr a"
  shows "7 < length pins \<and> lam0 \<noteq> 0
    \<and> adf_pins a = pins \<and> adf_effective_refractive_index a = n_eff
    \<and> adf_group_refractive_index a = n_g \<and> adf_GVD a = gvd \<and> adf_loss_dB a = loss
    \<and> adf_central_wavelength a = lam0 \<and> adf_angular_frequencies a = omegas
    \<and> adf_radius a = radius \<and> input_cross_coupling_coefficient a = k1
    \<and> auxiliary_cross_coupling_coefficient a = k2
    \<and> (\<exists>d1 d2.
          DirectionalCoupler_init k1 0 (pi / 2) (take 4 pins) = Inr d1
        \<and> DirectionalCoupler_init k2 0 (pi / 2) (drop 4 pins) = Inr d2
        \<and> adf_structures a =
            [DC d1, DC d2,
             WG \<lparr>wg_pins = [pins ! 3, pins ! 5], wg_length = radius * pi,
                  effective_refractive_index = n_eff, group_refractive_index = n_g,
                  GVD = gvd, loss_dB = loss, central_wavelength = lam0,
                  angular_frequencies = omegas,
                  central_frequency = 2 * pi / lam0 * c\<rparr>,
             WG \<lparr>wg_pins = [pins ! 7, pins ! 1], wg_length = radius * pi,
                  effective_refractive_index = n_eff, group_refractive_index = n_g,
                  GVD = gvd, loss_dB = loss, central_wavelength = lam0,
                  angular_frequencies = omegas,
                  central_frequency = 2 * pi / lam0 * c\<rparr>])"
  using assms
  by (auto simp: AddDropFilter_init_def DirectionalCoupler_init_def Waveguide_init_def
        bind_err_def getitem_def split: if_splits)

lemma RingResonator_init_example:
  "\<exists>rr. RingResonator_init 1 (3 / 5) 2 3 4 5 1 [0] [0, 1, 2, 3] = Inr rr"
  by (simp add: RingResonator_init_def DirectionalCoupler_init_def Waveguide_init_def
        bind_err_def getitem_def)

lemma AddDropFilter_init_example:
  "\<exists>a. AddDropFilter_init 1 (3 / 5) (3 / 5) 2 3 4 5 1 [0] [0, 1, 2, 3, 4, 5, 6, 7] = Inr a"
  by (simp add: AddDropFilter_init_def DirectionalCoupler_init_def Waveguide_init_def
        bind_err_def getitem_def)

lemma RingResonator_equations:
  assumes "RingResonator_init radius k n_eff n_g gvd loss lam0 omegas pins = Inr rr"
    and "length pins = 4"
  shows "\<exists>e1 e2 e3. field_equations (RingResonator_structure rr) = Inr [e1, e2, e3]"
proof -
  note r = RingResonator_init_Inr [OF assms(1)]
  from assms(2) obtain q0 q1 q2 q3 where pins: "pins = [q0, q1, q2, q3]"
    by (auto simp: length_Suc_conv numeral_eq_Suc)
  show ?thesis
    using r
    by (simp add: pins RingResonator_structure_def
          DirectionalCoupler_field_equations_def Waveguide_field_equations_def
          bind_err_def getitem_def Let_def)
qed

lemma RingResonator_distinct_pins:
  assumes "RingResonator_init radius k n_eff n_g gvd loss lam0 omegas pins = Inr rr"
    and "length pins = 4" and "distinct pins"
  shows "num_distinct_pins (RingResonator_structure rr) = 4"
proof -
  note r = RingResonator_init_Inr [OF assms(1)]
  from assms(2) obtain q0 q1 q2 q3 where pins: "pins = [q0, q1, q2, q3]"
    by (auto simp: length_Suc_conv numeral_eq_Suc)
  show ?thesis
    using r assms(3)
    by (auto simp: pins RingResonator_structure_def num_distinct_pins_def)
qed

lemma RingResonator_init_isl:
  "isl (RingResonator_init radius k n_eff n_g gvd loss lam0 omegas pins)
     = (length pins \<le> 3 \<or> lam0 = 0)"
  by (auto simp: RingResonator_init_def DirectionalCoupler_init_def Waveguide_init_def
        bind_err_def getitem_def)

lemma AddDropFilter_init_isl:
  "isl (AddDropFilter_init radius k1 k2 n_eff n_g gvd loss lam0 omegas pins)
     = (length pins \<le> 7 \<or> lam0 = 0)"
  by (auto simp: AddDropFilter_init_def DirectionalCoupler_init_def Waveguide_init_def
        bind_err_def getitem_def)

subsection \<open>Leaf structures\<close>

text \<open>
  C1. For a Waveguide built with length \<open>len\<close>, indices \<open>n_eff\<close> and \<open>n_g\<close>,
  dispersion \<open>gvd\<close>, loss \<open>loss\<close> (dB/m), central wavelength \<open>lam0\<close> and sweep \<open>omegas\<close>
  on the pins \<open>pin_in\<close>, \<open>pin_out\<close>, \<open>field_equations\<close> is exactly one equation
  \<open>{pin_in: -a * exp(i * k(om) * len), pin_out: 1}\<close>, with \<open>a = 10^(-loss*len/20)\<close> and
  \<open>k(om)\<close> the second-order expansion around \<open>om0 = 2*pi*c/lam0\<close>:
  \<open>n_eff*om0/c + n_g*(om - om0)/c + (gvd/2)*(om - om0)^2\<close>, for every swept \<open>om\<close>.
\<close>

theorem Waveguide_field_equations_form:
  assumes "Waveguide_init len n_eff n_g gvd loss lam0 omegas [pin_in, pin_out] = Inr w"
  shows "Waveguide_field_equations w =
    Inr [dict_literal
      [(pin_in, Array (map (\<lambda>om. - of_real (10 powr (- loss * len / 20))
                             * exp (\<i> * of_real (n_eff * (2 * pi * c / lam0) / c
                                                  + n_g * (om - 2 * pi * c / lam0) / c
                                                  + gvd / 2 * (om - 2 * pi * c / lam0) ^ 2)
                                      * of_real len)) omegas)),
       (pin_out, Scalar 1)]]"
  using assms by (rule Waveguide_field_equations_init)

theorem Waveguide_field_equations_form_witness:
  "Waveguide_init 1 1 1 0 0 1 [0] [0, 1]
     = Inr \<lparr>wg_pins = [0, 1], wg_length = 1, effective_refractive_index = 1,
            group_refractive_index = 1, GVD = 0, loss_dB = 0, central_wavelength = 1,
            angular_frequencies = [0], central_frequency = 2 * pi * c\<rparr>
   \<and> Waveguide_field_equations
       \<lparr>wg_pins = [0, 1], wg_length = 1, effective_refractive_index = 1,
        group_refractive_index = 1, GVD = 0, loss_dB = 0, central_wavelength = 1,
        angular_frequencies = [0], central_frequency = 2 * pi * c\<rparr>
     = Inr [[(0, Array [- 1]), (1, Scalar 1)]]"
proof -
  have h: "Waveguide_init 1 1 1 0 0 1 [0] [0, 1]
     = Inr \<lparr>wg_pins = [0, 1], wg_length = 1, effective_refractive_index = 1,
            group_refractive_index = 1, GVD = 0, loss_dB = 0, central_wavelength = 1,
            angular_frequencies = [0], central_frequency = 2 * pi * c\<rparr>"
    by (simp add: Waveguide_init_def)
  have cpos: "c \<noteq> 0" by (simp add: c_def)
  show ?thesis
    using Waveguide_field_equations_form [OF h] h cpos
    by (simp add: dict_literal_def)
qed

text \<open>
  C2. For a DirectionalCoupler built with cross-coupling magnitude \<open>k\<close> and phases
  \<open>phs\<close> (self) and \<open>phc\<close> (cross) on the pins \<open>p0, p1, p2, p3\<close>, \<open>field_equations\<close> is
  exactly the two mappings \<open>{p0: sigma, p1: kappa, p2: -1}\<close> and
  \<open>{p0: -conj(kappa), p1: conj(sigma), p3: -1}\<close>, where \<open>kappa = k * exp(i * phc)\<close> and
  \<open>sigma = sqrt(1 - k^2) * exp(i * phs)\<close>; the square root is numpy's, which is
  not-a-number when \<open>1 - k^2\<close> is negative.
\<close>

theorem DirectionalCoupler_field_equations_form:
  assumes "DirectionalCoupler_init k phs phc [p0, p1, p2, p3] = Inr d"
  shows "DirectionalCoupler_field_equations d =
      Inr [dict_literal
             [(p0, if k ^ 2 \<le> 1
                   then Scalar (of_real (sqrt (1 - k ^ 2)) * exp (\<i> * of_real phs)) else NaN),
              (p1, Scalar (of_real k * exp (\<i> * of_real phc))),
              (p2, Scalar (- 1))],
           dict_literal
             [(p0, Scalar (- cnj (of_real k * exp (\<i> * of_real phc)))),
              (p1, if k ^ 2 \<le> 1
                   then Scalar (cnj (of_real (sqrt (1 - k ^ 2)) * exp (\<i> * of_real phs)))
                   else NaN),
              (p3, Scalar (- 1))]]"
proof -
  from assms have d: "d = \<lparr>dc_pins = [p0, p1, p2, p3],
          kappa = Scalar (of_real k * exp (\<i> * of_real phc)),
          sigma = (case np_sqrt (1 - k ^ 2) of
                     None \<Rightarrow> NaN
                   | Some r \<Rightarrow> Scalar (of_real r * exp (\<i> * of_real phs)))\<rparr>"
    by (simp add: DirectionalCoupler_init_def)
  show ?thesis
    by (simp add: d DirectionalCoupler_field_equations_def bind_err_def getitem_def np_sqrt_def)
qed

theorem DirectionalCoupler_field_equations_form_witness:
  "DirectionalCoupler_init (3 / 5) 0 0 [0, 1, 2, 3]
     = Inr \<lparr>dc_pins = [0, 1, 2, 3], kappa = Scalar (3 / 5), sigma = Scalar (4 / 5)\<rparr>
   \<and> DirectionalCoupler_field_equations
       \<lparr>dc_pins = [0, 1, 2, 3], kappa = Scalar (3 / 5), sigma = Scalar (4 / 5)\<rparr>
     = Inr [[(0, Scalar (4 / 5)), (1, Scalar (3 / 5)), (2, Scalar (- 1))],
            [(0, Scalar (- (3 / 5))), (1, Scalar (4 / 5)), (3, Scalar (- 1))]]"
proof -
  have h: "DirectionalCoupler_init (3 / 5) 0 0 [0, 1, 2, 3]
     = Inr \<lparr>dc_pins = [0, 1, 2, 3], kappa = Scalar (3 / 5), sigma = Scalar (4 / 5)\<rparr>"
    by (simp add: DirectionalCoupler_init_def np_sqrt_def sqrt_16_25 power2_eq_square)
  show ?thesis
    using DirectionalCoupler_field_equations_form [OF h] h
    by (simp add: dict_literal_def sqrt_16_25 power2_eq_square)
qed

text \<open>
  C4. For every cross-coupling magnitude \<open>k\<close> in \<open>[0, 1]\<close> and any two phases, the stored
  coefficients \<open>kappa = k * exp(i * phc)\<close> and \<open>sigma = sqrt(1 - k^2) * exp(i * phs)\<close> of a
  DirectionalCoupler satisfy \<open>|sigma|^2 + |kappa|^2 = 1\<close>.
\<close>

theorem DirectionalCoupler_unitarity:
  assumes "0 \<le> k" and "k \<le> 1"
    and "DirectionalCoupler_init k phs phc pins = Inr d"
  shows "\<exists>s x. sigma d = Scalar s \<and> kappa d = Scalar x
           \<and> s = of_real (sqrt (1 - k ^ 2)) * exp (\<i> * of_real phs)
           \<and> x = of_real k * exp (\<i> * of_real phc)
           \<and> (cmod s) ^ 2 + (cmod x) ^ 2 = 1"
proof -
  from assms(1,2) have k2: "k ^ 2 \<le> 1"
    by (simp add: power_le_one)
  from assms(3) k2 have sg: "sigma d = Scalar (of_real (sqrt (1 - k ^ 2)) * exp (\<i> * of_real phs))"
    and kp: "kappa d = Scalar (of_real k * exp (\<i> * of_real phc))"
    by (auto simp: DirectionalCoupler_init_def np_sqrt_def)
  have "(cmod (of_real (sqrt (1 - k ^ 2)) * exp (\<i> * of_real phs))) ^ 2
          + (cmod (of_real k * exp (\<i> * of_real phc))) ^ 2 = 1"
    using k2 by (simp add: norm_mult)
  with sg kp show ?thesis by blast
qed

theorem DirectionalCoupler_unitarity_witness:
  "(0::real) \<le> 3 / 5 \<and> (3 / 5 :: real) \<le> 1
   \<and> DirectionalCoupler_init (3 / 5) 0 0 [0, 1, 2, 3]
       = Inr \<lparr>dc_pins = [0, 1, 2, 3], kappa = Scalar (3 / 5), sigma = Scalar (4 / 5)\<rparr>
   \<and> (cmod (4 / 5)) ^ 2 + (cmod (3 / 5)) ^ 2 = 1"
proof -
  have h: "DirectionalCoupler_init (3 / 5) 0 0 [0, 1, 2, 3]
     = Inr \<lparr>dc_pins = [0, 1, 2, 3], kappa = Scalar (3 / 5), sigma = Scalar (4 / 5)\<rparr>"
    by (simp add: DirectionalCoupler_init_def np_sqrt_def sqrt_16_25 power2_eq_square)
  have a: "(0::real) \<le> 3 / 5" and b: "(3 / 5 :: real) \<le> 1" by simp_all
  from DirectionalCoupler_unitarity [OF a b h] show ?thesis
    using h by (simp add: sqrt_16_25 power2_eq_square)
qed

text \<open>
  C5. For a Waveguide of length \<open>len\<close> and every swept angular frequency, the transfer
  coefficient (the negated coefficient that the single field equation gives to
  \<open>pin_in\<close>) has magnitude 1 when \<open>loss_dB = 0\<close>, and magnitude \<open>10^(-loss*len/20)\<close>, the
  same at every frequency, when \<open>loss_dB = loss > 0\<close>.
\<close>

theorem Waveguide_transfer_magnitude:
  assumes "Waveguide_init len n_eff n_g gvd loss lam0 omegas [pin_in, pin_out] = Inr w"
  shows "\<exists>zs. Waveguide_field_equations w
                 = Inr [dict_literal [(pin_in, Array zs), (pin_out, Scalar 1)]]
           \<and> (pin_in \<noteq> pin_out \<longrightarrow>
                 map_of (dict_literal [(pin_in, Array zs), (pin_out, Scalar 1)]) pin_in
                   = Some (Array zs))
           \<and> length zs = length omegas
           \<and> (\<forall>i < length omegas.
                 (loss = 0 \<longrightarrow> cmod (- (zs ! i)) = 1)
               \<and> (0 < loss \<longrightarrow> cmod (- (zs ! i)) = 10 powr (- loss * len / 20)))"
proof -
  let ?zs = "map (\<lambda>om. - of_real (10 powr (- loss * len / 20))
                             * exp (\<i> * of_real (n_eff * (2 * pi * c / lam0) / c
                                                  + n_g * (om - 2 * pi * c / lam0) / c
                                                  + gvd / 2 * (om - 2 * pi * c / lam0) ^ 2)
                                      * of_real len)) omegas"
  have eq: "Waveguide_field_equations w
              = Inr [dict_literal [(pin_in, Array ?zs), (pin_out, Scalar 1)]]"
    using assms by (rule Waveguide_field_equations_init)
  have mag: "cmod (- (?zs ! i)) = 10 powr (- loss * len / 20)" if "i < length omegas" for i
    using that by (simp only: nth_map cmod_transfer)
  have "pin_in \<noteq> pin_out \<longrightarrow>
          map_of (dict_literal [(pin_in, Array ?zs), (pin_out, Scalar 1)]) pin_in
            = Some (Array ?zs)"
    by (simp add: dict_literal_def)
  moreover have "length ?zs = length omegas" by simp
  moreover have "\<forall>i < length omegas.
                 (loss = 0 \<longrightarrow> cmod (- (?zs ! i)) = 1)
               \<and> (0 < loss \<longrightarrow> cmod (- (?zs ! i)) = 10 powr (- loss * len / 20))"
    using mag by auto
  ultimately show ?thesis using eq by blast
qed

theorem Waveguide_transfer_magnitude_witness:
  "Waveguide_init 1 1 1 0 20 1 [0] [0, 1]
     = Inr \<lparr>wg_pins = [0, 1], wg_length = 1, effective_refractive_index = 1,
            group_refractive_index = 1, GVD = 0, loss_dB = 20, central_wavelength = 1,
            angular_frequencies = [0], central_frequency = 2 * pi * c\<rparr>
   \<and> (\<exists>zs. Waveguide_field_equations
         \<lparr>wg_pins = [0, 1], wg_length = 1, effective_refractive_index = 1,
          group_refractive_index = 1, GVD = 0, loss_dB = 20, central_wavelength = 1,
          angular_frequencies = [0], central_frequency = 2 * pi * c\<rparr>
           = Inr [[(0, Array zs), (1, Scalar 1)]]
       \<and> map_of [(0, Array zs), (1 :: pin, Scalar 1)] (0 :: pin) = Some (Array zs)
       \<and> length zs = 1
       \<and> cmod (- (zs ! 0)) = 10 powr (- 1))"
proof -
  have h: "Waveguide_init 1 1 1 0 20 1 [0] [0, 1]
     = Inr \<lparr>wg_pins = [0, 1], wg_length = 1, effective_refractive_index = 1,
            group_refractive_index = 1, GVD = 0, loss_dB = 20, central_wavelength = 1,
            angular_frequencies = [0], central_frequency = 2 * pi * c\<rparr>"
    by (simp add: Waveguide_init_def)
  from Waveguide_transfer_magnitude [OF h] h show ?thesis
    by (simp add: dict_literal_def)
qed

text \<open>
  C8 (as the code has it). Constructing a DirectionalCoupler raises no error, whatever
  the cross-coupling coefficient: the coupler is built, with a not-a-number
  self-coupling coefficient when \<open>k^2 > 1\<close>. Constructing a RingResonator or an
  AddDropFilter fails exactly on a pin list that is too short or a zero central
  wavelength, whatever the coupling coefficients.
\<close>

theorem DirectionalCoupler_init_never_raises:
  "DirectionalCoupler_init k phs phc pins =
     Inr \<lparr>dc_pins = pins,
          kappa = Scalar (of_real k * exp (\<i> * of_real phc)),
          sigma = (if k ^ 2 \<le> 1
                   then Scalar (of_real (sqrt (1 - k ^ 2)) * exp (\<i> * of_real phs))
                   else NaN)\<rparr>
   \<and> isl (RingResonator_init radius k n_eff n_g gvd loss lam0 omegas rpins)
       = (length rpins \<le> 3 \<or> lam0 = 0)
   \<and> isl (AddDropFilter_init radius' k1 k2 n_eff' n_g' gvd' loss' lam0' omegas' apins)
       = (length apins \<le> 7 \<or> lam0' = 0)"
  by (simp add: DirectionalCoupler_init_def np_sqrt_def RingResonator_init_isl
        AddDropFilter_init_isl)

text \<open>
  The claim of a parameter-domain error at construction time fails at the
  cross-coupling coefficient 2: the constructor returns a coupler.
\<close>

theorem DirectionalCoupler_init_accepts_2:
  "DirectionalCoupler_init 2 0 (pi / 2) [0, 1, 2, 3]
     = Inr \<lparr>dc_pins = [0, 1, 2, 3], kappa = Scalar (2 * exp (\<i> * of_real (pi / 2))),
            sigma = NaN\<rparr>
   \<and> \<not> isl (DirectionalCoupler_init 2 0 (pi / 2) [0, 1, 2, 3])"
  by (simp add: DirectionalCoupler_init_def np_sqrt_def)

text \<open>
  C10. Two Sources built on the same pins with the same amplitude and different phase
  arguments have the same \<open>field_equations\<close> (\<open>{pin: 1}\<close>) and the same
  \<open>ordinate_vector\<close> (\<open>[amplitude]\<close>).
\<close>

theorem Source_phase_irrelevant:
  assumes "Source_init ampl ph1 pins = Inr s1" and "Source_init ampl ph2 pins = Inr s2"
  shows "Source_field_equations s1 = Source_field_equations s2
       \<and> Source_ordinate_vector s1 = Source_ordinate_vector s2
       \<and> Source_ordinate_vector s1 = [ampl]
       \<and> Source_field_equations s1 =
           (case pins of [] \<Rightarrow> Inl IndexError | p # ps \<Rightarrow> Inr [[(p, Scalar 1)]])"
  using assms
  by (auto simp: Source_init_def Source_field_equations_def Source_ordinate_vector_def
        getitem_def dict_literal_def split: list.splits)

theorem Source_phase_irrelevant_witness:
  "Source_init 1 0 [0] = Inr \<lparr>src_pins = [0], amplitude = 1, phase = 0\<rparr>
   \<and> Source_init 1 (pi / 2) [0] = Inr \<lparr>src_pins = [0], amplitude = 1, phase = pi / 2\<rparr>
   \<and> Source_field_equations \<lparr>src_pins = [0], amplitude = 1, phase = 0\<rparr>
       = Source_field_equations \<lparr>src_pins = [0], amplitude = 1, phase = pi / 2\<rparr>
   \<and> Source_ordinate_vector \<lparr>src_pins = [0], amplitude = 1, phase = 0\<rparr>
       = Source_ordinate_vector \<lparr>src_pins = [0], amplitude = 1, phase = pi / 2\<rparr>
   \<and> Source_field_equations \<lparr>src_pins = [0], amplitude = 1, phase = 0\<rparr>
       = Inr [[(0, Scalar 1)]]"
proof -
  have h1: "Source_init 1 0 [0] = Inr \<lparr>src_pins = [0], amplitude = 1, phase = 0\<rparr>"
    by (simp add: Source_init_def)
  have h2: "Source_init 1 (pi / 2) [0] = Inr \<lparr>src_pins = [0], amplitude = 1, phase = pi / 2\<rparr>"
    by (simp add: Source_init_def)
  note r = Source_phase_irrelevant [OF h1 h2, unfolded list.case]
  from r h1 h2 show ?thesis by blast
qed

subsection \<open>Composite structures\<close>

text \<open>
  C3. A RingResonator built with radius \<open>radius\<close> on its four pins has the structures
  list \<open>[coupler, waveguide]\<close>: the DirectionalCoupler is on the ring's own pins and
  gives 2 equations, the Waveguide has length \<open>2 * pi * radius\<close>, its pins are the
  ring's \<open>pins[3]\<close> and \<open>pins[1]\<close> (no new pins) and it gives 1 equation; flattened, the
  ring has exactly these 3 equations.
\<close>

theorem RingResonator_composition:
  assumes "RingResonator_init radius k n_eff n_g gvd loss lam0 omegas pins = Inr rr"
    and "length pins = RingResonator_num_pins"
  shows "length (rr_pins rr) = 4 \<and> RingResonator_num_equations = 3
       \<and> (\<exists>d w e1 e2 e3.
             rr_structures rr = [DC d, WG w]
           \<and> dc_pins d = rr_pins rr
           \<and> wg_pins w = [rr_pins rr ! 3, rr_pins rr ! 1]
           \<and> set (wg_pins w) \<subseteq> set (rr_pins rr)
           \<and> wg_length w = 2 * pi * radius
           \<and> DirectionalCoupler_field_equations d = Inr [e1, e2]
           \<and> Waveguide_field_equations w = Inr [e3]
           \<and> field_equations (RingResonator_structure rr) = Inr [e1, e2, e3])"
proof -
  note r = RingResonator_init_Inr [OF assms(1)]
  from assms(2) have len: "length pins = 4"
    by (simp add: RingResonator_num_pins_def)
  then obtain q0 q1 q2 q3 where pins: "pins = [q0, q1, q2, q3]"
    by (auto simp: length_Suc_conv numeral_eq_Suc)
  show ?thesis
    using r
    by (simp add: pins RingResonator_num_equations_def RingResonator_structure_def
          DirectionalCoupler_field_equations_def Waveguide_field_equations_def
          bind_err_def getitem_def Let_def)
qed

theorem RingResonator_composition_witness:
  "\<exists>rr. RingResonator_init 1 (3 / 5) 2 3 4 5 1 [0] [0, 1, 2, 3] = Inr rr
     \<and> length [0, 1, 2, 3 :: pin] = RingResonator_num_pins
     \<and> length (rr_pins rr) = 4
     \<and> (\<exists>d w e1 e2 e3.
             rr_structures rr = [DC d, WG w]
           \<and> dc_pins d = [0, 1, 2, 3]
           \<and> wg_pins w = [3, 1]
           \<and> wg_length w = 2 * pi
           \<and> DirectionalCoupler_field_equations d = Inr [e1, e2]
           \<and> Waveguide_field_equations w = Inr [e3]
           \<and> field_equations (RingResonator_structure rr) = Inr [e1, e2, e3])"
proof -
  from RingResonator_init_example obtain rr
    where h: "RingResonator_init 1 (3 / 5) 2 3 4 5 1 [0] [0, 1, 2, 3] = Inr rr" by blast
  have l: "length [0, 1, 2, 3 :: pin] = RingResonator_num_pins"
    by (simp add: RingResonator_num_pins_def)
  have p: "rr_pins rr = [0, 1, 2, 3]"
    using RingResonator_init_Inr [OF h] by simp
  from RingResonator_composition [OF h l] h l p show ?thesis
    by (intro exI [of _ rr]) auto
qed

text \<open>
  C7. Every Waveguide in the structures list of a RingResonator or of an AddDropFilter
  (there is one) has the composite's own effective refractive index, group refractive
  index, GVD coefficient, loss_dB, central wavelength and angular-frequency sweep.
\<close>

theorem composite_attributes_propagated:
  "(RingResonator_init radius k n_eff n_g gvd loss lam0 omegas pins = Inr rr \<longrightarrow>
      (\<exists>w. WG w \<in> set (rr_structures rr))
    \<and> (\<forall>w. WG w \<in> set (rr_structures rr) \<longrightarrow>
          effective_refractive_index w = rr_effective_refractive_index rr
        \<and> group_refractive_index w = rr_group_refractive_index rr
        \<and> GVD w = rr_GVD rr
        \<and> loss_dB w = rr_loss_dB rr
        \<and> central_wavelength w = rr_central_wavelength rr
        \<and> angular_frequencies w = rr_angular_frequencies rr))
 \<and> (AddDropFilter_init radius' k1 k2 n_eff' n_g' gvd' loss' lam0' omegas' pins' = Inr a \<longrightarrow>
      (\<exists>w. WG w \<in> set (adf_structures a))
    \<and> (\<forall>w. WG w \<in> set (adf_structures a) \<longrightarrow>
          effective_refractive_index w = adf_effective_refractive_index a
        \<and> group_refractive_index w = adf_group_refractive_index a
        \<and> GVD w = adf_GVD a
        \<and> loss_dB w = adf_loss_dB a
        \<and> central_wavelength w = adf_central_wavelength a
        \<and> angular_frequencies w = adf_angular_frequencies a))"
proof (intro conjI impI)
  assume h: "RingResonator_init radius k n_eff n_g gvd loss lam0 omegas pins = Inr rr"
  note r = RingResonator_init_Inr [OF h]
  from r show "\<exists>w. WG w \<in> set (rr_structures rr)"
    by auto
  from r show "\<forall>w. WG w \<in> set (rr_structures rr) \<longrightarrow>
          effective_refractive_index w = rr_effective_refractive_index rr
        \<and> group_refractive_index w = rr_group_refractive_index rr
        \<and> GVD w = rr_GVD rr
        \<and> loss_dB w = rr_loss_dB rr
        \<and> central_wavelength w = rr_central_wavelength rr
        \<and> angular_frequencies w = rr_angular_frequencies rr"
    by auto
next
  assume h: "AddDropFilter_init radius' k1 k2 n_eff' n_g' gvd' loss' lam0' omegas' pins' = Inr a"
  note r = AddDropFilter_init_Inr [OF h]
  from r show "\<exists>w. WG w \<in> set (adf_structures a)"
    by auto
  from r show "\<forall>w. WG w \<in> set (adf_structures a) \<longrightarrow>
          effective_refractive_index w = adf_effective_refractive_index a
        \<and> group_refractive_index w = adf_group_refractive_index a
        \<and> GVD w = adf_GVD a
        \<and> loss_dB w = adf_loss_dB a
        \<and> central_wavelength w = adf_central_wavelength a
        \<and> angular_frequencies w = adf_angular_frequencies a"
    by auto
qed

theorem composite_attributes_propagated_witness:
  "\<exists>rr a. RingResonator_init 1 (3 / 5) 2 3 4 5 1 [0] [0, 1, 2, 3] = Inr rr
     \<and> AddDropFilter_init 1 (3 / 5) (3 / 5) 2 3 4 5 1 [0] [0, 1, 2, 3, 4, 5, 6, 7] = Inr a
     \<and> (\<exists>w. WG w \<in> set (rr_structures rr)
           \<and> effective_refractive_index w = 2 \<and> group_refractive_index w = 3
           \<and> GVD w = 4 \<and> loss_dB w = 5 \<and> central_wavelength w = 1
           \<and> angular_frequencies w = [0])
     \<and> (\<exists>w. WG w \<in> set (adf_structures a)
           \<and> effective_refractive_index w = 2 \<and> group_refractive_index w = 3
           \<and> GVD w = 4 \<and> loss_dB w = 5 \<and> central_wavelength w = 1
           \<and> angular_frequencies w = [0])"
proof -
  from RingResonator_init_example obtain rr
    where h1: "RingResonator_init 1 (3 / 5) 2 3 4 5 1 [0] [0, 1, 2, 3] = Inr rr" by blast
  from AddDropFilter_init_example obtain a
    where h2: "AddDropFilter_init 1 (3 / 5) (3 / 5) 2 3 4 5 1 [0] [0, 1, 2, 3, 4, 5, 6, 7] = Inr a"
    by blast
  have r: "rr_effective_refractive_index rr = 2" "rr_group_refractive_index rr = 3"
    "rr_GVD rr = 4" "rr_loss_dB rr = 5" "rr_central_wavelength rr = 1"
    "rr_angular_frequencies rr = [0]"
    using RingResonator_init_Inr [OF h1] by simp_all
  have s: "adf_effective_refractive_index a = 2" "adf_group_refractive_index a = 3"
    "adf_GVD a = 4" "adf_loss_dB a = 5" "adf_central_wavelength a = 1"
    "adf_angular_frequencies a = [0]"
    using AddDropFilter_init_Inr [OF h2] by simp_all
  note t = composite_attributes_propagated
    [of 1 "3 / 5" 2 3 4 5 1 "[0]" "[0, 1, 2, 3]" rr
        1 "3 / 5" "3 / 5" 2 3 4 5 1 "[0]" "[0, 1, 2, 3, 4, 5, 6, 7]" a]
  from t h1 obtain w1 where w1: "WG w1 \<in> set (rr_structures rr)" by blast
  from t h2 obtain w2 where w2: "WG w2 \<in> set (adf_structures a)" by blast
  from t h1 w1 r have a1: "effective_refractive_index w1 = 2 \<and> group_refractive_index w1 = 3
           \<and> GVD w1 = 4 \<and> loss_dB w1 = 5 \<and> central_wavelength w1 = 1
           \<and> angular_frequencies w1 = [0]" by metis
  from t h2 w2 s have a2: "effective_refractive_index w2 = 2 \<and> group_refractive_index w2 = 3
           \<and> GVD w2 = 4 \<and> loss_dB w2 = 5 \<and> central_wavelength w2 = 1
           \<and> angular_frequencies w2 = [0]" by metis
  from h1 h2 w1 w2 a1 a2 show ?thesis by blast
qed

text \<open>
  C6. For an AddDropFilter whose solved field array \<open>fields\<close> has the columns 0 to 6 at
  least, \<open>transmission\<close> is, sample by sample, the squared magnitude of column 6 of
  \<open>fields\<close>, and \<open>field_enhancement\<close> the magnitude of column 3.
\<close>

theorem AddDropFilter_series_slices:
  assumes "wf_ndarray2 A" and "6 < ncols A"
  shows "AddDropFilter_transmission (Inr A) = Inr (map (\<lambda>r. (cmod (r ! 6)) ^ 2) (rows A))
       \<and> AddDropFilter_field_enhancement (Inr A) = Inr (map (\<lambda>r. cmod (r ! 3)) (rows A))
       \<and> list_all (\<lambda>r. 6 < length r) (rows A)"
  using assms
  by (auto simp: AddDropFilter_transmission_def AddDropFilter_field_enhancement_def
        bind_err_def column_def o_def wf_ndarray2_def list_all_iff)

theorem AddDropFilter_series_slices_witness:
  "wf_ndarray2 \<lparr>ncols = 8, rows = [[0, 1, 2, 3, 4, 5, 6, 7], [7, 6, 5, 4, 3, 2, 1, 0]]\<rparr>
   \<and> (6::nat) < ncols \<lparr>ncols = 8, rows = [[0, 1, 2, 3, 4, 5, 6, 7], [7, 6, 5, 4, 3, 2, 1, 0]]\<rparr>
   \<and> AddDropFilter_transmission
         (Inr \<lparr>ncols = 8, rows = [[0, 1, 2, 3, 4, 5, 6, 7], [7, 6, 5, 4, 3, 2, 1, 0]]\<rparr>)
       = Inr [36, 1]
   \<and> AddDropFilter_field_enhancement
         (Inr \<lparr>ncols = 8, rows = [[0, 1, 2, 3, 4, 5, 6, 7], [7, 6, 5, 4, 3, 2, 1, 0]]\<rparr>)
       = Inr [3, 4]"
proof -
  have w: "wf_ndarray2 \<lparr>ncols = 8, rows = [[0, 1, 2, 3, 4, 5, 6, 7], [7, 6, 5, 4, 3, 2, 1, 0]]\<rparr>"
    by (simp add: wf_ndarray2_def)
  have h: "(6::nat) < ncols \<lparr>ncols = 8, rows = [[0, 1, 2, 3, 4, 5, 6, 7], [7, 6, 5, 4, 3, 2, 1, 0]]\<rparr>"
    by simp
  from AddDropFilter_series_slices [OF w h] w h show ?thesis
    by simp
qed

subsection \<open>Structural validation\<close>

text \<open>
  C9. For a structure with fewer flattened equations than distinct pins, \<open>fields\<close> is
  a structural-validation error, whatever the solver would do: the solve is not
  reached. A RingResonator on four distinct pins, with no Source appended, is such a
  structure (3 equations, 4 pins).
\<close>

theorem fields_underdetermined:
  "(field_equations s = Inr es \<longrightarrow> length es < num_distinct_pins s \<longrightarrow>
      fields solve s = Inl StructuralValidationError)
 \<and> (RingResonator_init radius k n_eff n_g gvd loss lam0 omegas pins = Inr rr \<longrightarrow>
      length pins = 4 \<longrightarrow> distinct pins \<longrightarrow>
      fields solve (RingResonator_structure rr) = Inl StructuralValidationError)"
proof (intro conjI impI)
  assume "field_equations s = Inr es" and "length es < num_distinct_pins s"
  then show "fields solve s = Inl StructuralValidationError"
    by (simp add: fields_def bind_err_def)
next
  assume h: "RingResonator_init radius k n_eff n_g gvd loss lam0 omegas pins = Inr rr"
    and l: "length pins = 4" and d: "distinct pins"
  from RingResonator_equations [OF h l] obtain e1 e2 e3
    where "field_equations (RingResonator_structure rr) = Inr [e1, e2, e3]" by blast
  moreover note RingResonator_distinct_pins [OF h l d]
  ultimately show "fields solve (RingResonator_structure rr) = Inl StructuralValidationError"
    by (simp add: fields_def bind_err_def)
qed

theorem fields_underdetermined_witness:
  "\<exists>rr es. RingResonator_init 1 (3 / 5) 2 3 4 5 1 [0] [0, 1, 2, 3] = Inr rr
     \<and> length [0, 1, 2, 3 :: pin] = 4 \<and> distinct [0, 1, 2, 3 :: pin]
     \<and> field_equations (RingResonator_structure rr) = Inr es
     \<and> length es = 3 \<and> num_distinct_pins (RingResonator_structure rr) = 4
     \<and> length es < num_distinct_pins (RingResonator_structure rr)
     \<and> (\<forall>solve. fields solve (RingResonator_structure rr) = Inl StructuralValidationError)"
proof -
  from RingResonator_init_example obtain rr
    where h: "RingResonator_init 1 (3 / 5) 2 3 4 5 1 [0] [0, 1, 2, 3] = Inr rr" by blast
  have l: "length [0, 1, 2, 3 :: pin] = 4" and d: "distinct [0, 1, 2, 3 :: pin]"
    by simp_all
  from RingResonator_equations [OF h l] obtain e1 e2 e3
    where e: "field_equations (RingResonator_structure rr) = Inr [e1, e2, e3]" by blast
  note n = RingResonator_distinct_pins [OF h l d]
  have lt: "length [e1, e2, e3] < num_distinct_pins (RingResonator_structure rr)"
    using n by simp
  have f: "fields solve (RingResonator_structure rr) = Inl StructuralValidationError" for solve
    using fields_underdetermined [of "RingResonator_structure rr" "[e1, e2, e3]" solve]
      e lt by blast
  from h l d e n lt f show ?thesis
    by (intro exI [of _ rr] exI [of _ "[e1, e2, e3]"]) simp
qed

end
